theory Spec2Isabelle
  imports Main
begin

section \<open>Python values, exceptions and responses\<close>

text \<open>
  The values that flow through \<^verbatim>\<open>app2.py\<close>: what \<^verbatim>\<open>request.get_json()\<close> decodes, what
  the helper modules \<^verbatim>\<open>coordinates\<close> and \<^verbatim>\<open>weather2\<close> hand back, and what \<^verbatim>\<open>jsonify\<close>
  serialises. Floats are only ever passed through (coordinates, temperatures), so their
  representation is a type parameter. A \<open>PDict\<close> lists each key once, as a Python dict does.
\<close>

datatype 'f pyval =
    PNone
  | PBool bool
  | PInt int
  | PFloat 'f
  | PStr string
  | PList "'f pyval list"
  | PDict "(string \<times> 'f pyval) list"

text \<open>
  A raised exception. \<open>PyExc c m\<close> is an ordinary Python exception of class \<open>c\<close> whose
  \<^verbatim>\<open>str()\<close> is \<open>m\<close>; \<open>HTTPExc n m\<close> is a werkzeug \<^verbatim>\<open>HTTPException\<close> with status code \<open>n\<close>.
\<close>

datatype exn =
    PyExc string string
  | HTTPExc nat string

fun str_exn :: "exn \<Rightarrow> string" where
  "str_exn (PyExc c m) = m"
| "str_exn (HTTPExc n m) = m"

fun type_name :: "'f pyval \<Rightarrow> string" where
  "type_name PNone = ''NoneType''"
| "type_name (PBool b) = ''bool''"
| "type_name (PInt i) = ''int''"
| "type_name (PFloat x) = ''float''"
| "type_name (PStr s) = ''str''"
| "type_name (PList xs) = ''list''"
| "type_name (PDict kvs) = ''dict''"

definition quote :: "string \<Rightarrow> string" where
  "quote s = [CHR 0x27] @ s @ [CHR 0x27]"

definition no_attribute :: "'f pyval \<Rightarrow> string \<Rightarrow> exn" where
  "no_attribute v a =
     PyExc ''AttributeError'' (quote (type_name v) @ '' object has no attribute '' @ quote a)"

text \<open>
  \<^verbatim>\<open>data.get(key)\<close>: only a dict has the method; on a dict a missing key reads as
  \<^verbatim>\<open>None\<close>. Every other decoded JSON value raises \<^verbatim>\<open>AttributeError\<close>.
\<close>

fun py_get :: "'f pyval \<Rightarrow> string \<Rightarrow> exn + 'f pyval" where
  "py_get (PDict kvs) k = Inr (case map_of kvs k of None \<Rightarrow> PNone | Some v \<Rightarrow> v)"
| "py_get v k = Inl (no_attribute v ''get'')"

text \<open>
  \<^verbatim>\<open>latitude, longitude = result\<close> where \<open>result\<close> is what \<^verbatim>\<open>get_location_from_google\<close>
  returned: a pair, or \<^verbatim>\<open>None\<close>, which is not iterable.
\<close>

fun unpack_pair :: "('a \<times> 'a) option \<Rightarrow> exn + ('a \<times> 'a)" where
  "unpack_pair None = Inl (PyExc ''TypeError'' ''cannot unpack non-iterable NoneType object'')"
| "unpack_pair (Some p) = Inr p"

text \<open>
  A response body: JSON, the file at a path (what \<^verbatim>\<open>send_from_directory\<close> sends), or a
  page the framework renders itself.
\<close>

datatype 'f body =
    JsonBody "'f pyval"
  | FileBody string
  | HtmlBody string

record 'f response =
  status :: nat
  body :: "'f body"

text \<open>\<^verbatim>\<open>jsonify(k1=v1, ...)\<close>: a JSON object of the keyword arguments, status 200.\<close>

definition jsonify :: "(string \<times> 'f pyval) list \<Rightarrow> 'f response" where
  "jsonify kwargs = \<lparr>status = 200, body = JsonBody (PDict kwargs)\<rparr>"


text \<open>A view that returns \<^verbatim>\<open>(response, code)\<close> sets the status of the response.\<close>

definition with_status :: "'f response \<Rightarrow> nat \<Rightarrow> 'f response" where
  "with_status r n = r\<lparr>status := n\<rparr>"

section \<open>Effects: the calls a handler makes\<close>

text \<open>
  Every call out of \<^verbatim>\<open>app2.py\<close> is logged with its arguments, in order. The functions
  called live in \<^verbatim>\<open>coordinates\<close> and \<^verbatim>\<open>weather2\<close>, outside this file: they are parameters
  of the model. Each may read and change the world \<open>'w\<close> (the network, the image file
  on disk), may raise, and returns a value.
\<close>

datatype 'f call =
    GetLocationFromGoogle "'f pyval" "'f pyval option"
  | GetLocationName "'f pyval" "'f pyval"
  | GetPlaceIdFromCoordinates "'f pyval" "'f pyval" "'f pyval"
  | GetCurrentWeather "'f pyval" "'f pyval" "'f pyval"
  | GetFiveDayForecast "'f pyval" "'f pyval" "'f pyval"
  | GetPhotoReference "'f pyval" "'f pyval"
  | GetPhoto "'f pyval" "'f pyval"
  | Print "'f pyval list"

type_synonym ('a, 'w) ext = "'w \<Rightarrow> (exn + 'a) \<times> 'w"

type_synonym ('a, 'f, 'w) io = "'f call list \<times> 'w \<Rightarrow> (exn + 'a) \<times> ('f call list \<times> 'w)"

definition io_return :: "'a \<Rightarrow> ('a, 'f, 'w) io" where
  "io_return x s = (Inr x, s)"

definition io_lift :: "exn + 'a \<Rightarrow> ('a, 'f, 'w) io" where
  "io_lift r s = (r, s)"

text \<open>Sequencing: an exception skips the rest, keeping the effects made so far.\<close>

definition io_bind :: "('a, 'f, 'w) io \<Rightarrow> ('a \<Rightarrow> ('b, 'f, 'w) io) \<Rightarrow> ('b, 'f, 'w) io" where
  "io_bind m f s = (case m s of (Inl e, s') \<Rightarrow> (Inl e, s') | (Inr x, s') \<Rightarrow> f x s')"

definition invoke :: "'f call \<Rightarrow> ('a, 'w) ext \<Rightarrow> ('a, 'f, 'w) io" where
  "invoke c f s = (case f (snd s) of (r, w') \<Rightarrow> (r, (fst s @ [c], w')))"

definition print :: "'f pyval list \<Rightarrow> (unit, 'f, 'w) io" where
  "print vs s = (Inr (), (fst s @ [Print vs], snd s))"

section \<open>The application\<close>

text \<open>
  What \<^verbatim>\<open>app2.py\<close> imports and reads at start-up: the two API keys from the environment
  (\<^verbatim>\<open>os.getenv\<close> gives a string or \<^verbatim>\<open>None\<close>) and the seven helper functions.
  \<^verbatim>\<open>get_location_from_google\<close> takes the key and, optionally, the \<^verbatim>\<open>location\<close> keyword.
\<close>

record ('f, 'w) env =
  GOOGLE_API_KEY :: "'f pyval"
  OPENWEATHER_API_KEY :: "'f pyval"
  get_location_from_google ::
    "'f pyval \<Rightarrow> 'f pyval option \<Rightarrow> (('f pyval \<times> 'f pyval) option, 'w) ext"
  get_location_name :: "'f pyval \<Rightarrow> 'f pyval \<Rightarrow> ('f pyval, 'w) ext"
  get_place_id_from_coordinates :: "'f pyval \<Rightarrow> 'f pyval \<Rightarrow> 'f pyval \<Rightarrow> ('f pyval, 'w) ext"
  get_current_weather :: "'f pyval \<Rightarrow> 'f pyval \<Rightarrow> 'f pyval \<Rightarrow> ('f pyval, 'w) ext"
  get_five_day_forecast :: "'f pyval \<Rightarrow> 'f pyval \<Rightarrow> 'f pyval \<Rightarrow> ('f pyval, 'w) ext"
  get_photo_reference :: "'f pyval \<Rightarrow> 'f pyval \<Rightarrow> ('f pyval, 'w) ext"
  get_photo :: "'f pyval \<Rightarrow> 'f pyval \<Rightarrow> ('f pyval, 'w) ext"

text \<open>The request as the POST handler reads it: the outcome of \<^verbatim>\<open>request.get_json()\<close>.\<close>

record 'f request =
  get_json :: "exn + 'f pyval"

subsection \<open>Error handlers\<close>

definition internal_server_error :: "exn \<Rightarrow> 'f response" where
  "internal_server_error e = with_status (jsonify [(''error'', PStr (str_exn e))]) 500"

definition not_found_error :: "exn \<Rightarrow> 'f response" where
  "not_found_error e = with_status (jsonify [(''error'', PStr (str_exn e))]) 404"

text \<open>The handlers registered with \<^verbatim>\<open>@app.errorhandler\<close>, by status code.\<close>

definition errorhandler :: "nat \<Rightarrow> (exn \<Rightarrow> 'f response) option" where
  "errorhandler code =
     (if code = 500 then Some internal_server_error
      else if code = 404 then Some not_found_error
      else None)"

text \<open>
  What the framework does with the outcome of a view. An HTTP exception goes to the
  handler registered for its code; any other exception is first turned into the
  framework's server error (\<open>as_server_error\<close>, code 500) and goes to the handler for 500.
  Where no handler is registered the framework renders the exception itself
  (\<open>render\<close>). Both are the framework's and are parameters here.
\<close>

record 'f framework =
  as_server_error :: "exn \<Rightarrow> exn"
  render :: "exn \<Rightarrow> 'f response"

fun handle_exception :: "'f framework \<Rightarrow> exn \<Rightarrow> 'f response" where
  "handle_exception fw (HTTPExc code m) =
     (case errorhandler code of
        Some h \<Rightarrow> h (HTTPExc code m)
      | None \<Rightarrow> render fw (HTTPExc code m))"
| "handle_exception fw (PyExc c m) =
     (case errorhandler 500 of
        Some h \<Rightarrow> h (as_server_error fw (PyExc c m))
      | None \<Rightarrow> render fw (as_server_error fw (PyExc c m)))"

definition dispatch :: "'f framework \<Rightarrow> exn + 'f response \<Rightarrow> 'f response" where
  "dispatch fw outcome = (case outcome of Inl e \<Rightarrow> handle_exception fw e | Inr r \<Rightarrow> r)"

subsection \<open>Static files\<close>

text \<open>
  \<^verbatim>\<open>serve(path)\<close>. \<open>static_folder\<close> is \<^verbatim>\<open>app.static_folder\<close>, \<open>path_exists\<close> is
  \<^verbatim>\<open>os.path.exists\<close> and \<open>send_from_directory\<close> is the framework's function of that
  name, whose response (or exception) the view returns unchanged.
\<close>

record 'f static_files =
  static_folder :: string
  path_exists :: "string \<Rightarrow> bool"
  send_from_directory :: "string \<Rightarrow> string \<Rightarrow> exn + 'f response"

definition serve :: "'f static_files \<Rightarrow> string \<Rightarrow> exn + 'f response" where
  "serve app path =
     (if path \<noteq> '''' \<and> path_exists app (static_folder app @ ''/'' @ path)
      then send_from_directory app (static_folder app) path
      else send_from_directory app (static_folder app) ''index.html'')"

subsection \<open>POST /get_weather\<close>

definition no_location_provided :: "'f response" where
  "no_location_provided = jsonify [(''error'', PStr ''No location provided.'')]"

definition unable_to_retrieve_location :: "'f response" where
  "unable_to_retrieve_location =
     jsonify [(''error'', PStr ''Unable to retrieve location from Google Geolocation API.'')]"

text \<open>
  The handler is one function in the source; here it is cut at two places so that each
  part can be stated on its own. \<open>fetch_photo_path\<close> is lines 131 to 134: \<^verbatim>\<open>photo_path\<close>
  starts as \<^verbatim>\<open>None\<close>, and \<^verbatim>\<open>get_photo\<close> is called only for a reference that is not
  \<^verbatim>\<open>None\<close>. \<open>get_weather_at\<close> is lines 126 to 137, what runs once the coordinates are
  unpacked. \<open>get_weather\<close> is the whole view, lines 117 to 137.
\<close>

definition fetch_photo_path :: "('f, 'w) env \<Rightarrow> 'f pyval \<Rightarrow> ('f pyval, 'f, 'w) io" where
  "fetch_photo_path env photo_reference =
     (if photo_reference \<noteq> PNone then
        io_bind (invoke (GetPhoto photo_reference (GOOGLE_API_KEY env))
                   (get_photo env photo_reference (GOOGLE_API_KEY env)))
          (\<lambda>photo_filename.
             io_return (if photo_filename \<noteq> PNone then PStr ''images/photo.jpg'' else PNone))
      else io_return PNone)"

definition get_weather_at ::
  "('f, 'w) env \<Rightarrow> 'f pyval \<Rightarrow> 'f pyval \<Rightarrow> ('f response, 'f, 'w) io" where
  "get_weather_at env latitude longitude =
     io_bind (invoke (GetLocationName latitude longitude)
                (get_location_name env latitude longitude))
       (\<lambda>location_name.
     io_bind (invoke (GetPlaceIdFromCoordinates (GOOGLE_API_KEY env) latitude longitude)
                (get_place_id_from_coordinates env (GOOGLE_API_KEY env) latitude longitude))
       (\<lambda>place_id.
     io_bind (invoke (GetCurrentWeather latitude longitude (OPENWEATHER_API_KEY env))
                (get_current_weather env latitude longitude (OPENWEATHER_API_KEY env)))
       (\<lambda>current_weather.
     io_bind (invoke (GetFiveDayForecast latitude longitude (OPENWEATHER_API_KEY env))
                (get_five_day_forecast env latitude longitude (OPENWEATHER_API_KEY env)))
       (\<lambda>forecast.
     io_bind (invoke (GetPhotoReference (GOOGLE_API_KEY env) place_id)
                (get_photo_reference env (GOOGLE_API_KEY env) place_id))
       (\<lambda>photo_reference.
     io_bind (fetch_photo_path env photo_reference)
       (\<lambda>photo_path.
     io_return (jsonify [(''current_weather'', current_weather), (''forecast'', forecast),
                         (''photo_path'', photo_path), (''location'', location_name)])))))))"

definition get_weather :: "('f, 'w) env \<Rightarrow> 'f request \<Rightarrow> ('f response, 'f, 'w) io" where
  "get_weather env request =
     io_bind (io_lift (get_json request))
       (\<lambda>data.
     io_bind (io_lift (py_get data ''location''))
       (\<lambda>location.
     if location = PNone then io_return no_location_provided
     else
       io_bind (invoke (GetLocationFromGoogle (GOOGLE_API_KEY env) (Some location))
                  (get_location_from_google env (GOOGLE_API_KEY env) (Some location)))
         (\<lambda>location_result.
            case location_result of
              None \<Rightarrow> io_return unable_to_retrieve_location
            | Some (latitude, longitude) \<Rightarrow> get_weather_at env latitude longitude)))"

subsection \<open>GET /weather\<close>

text \<open>
  \<open>weather_at\<close> is the body of the \<^verbatim>\<open>if\<close> on lines 161 to 168; \<open>weather\<close> is the whole
  view. The result of \<^verbatim>\<open>get_location_from_google\<close> is unpacked on line 159, before
  anything is tested, and \<^verbatim>\<open>get_photo\<close> is called with whatever reference came back.
\<close>

definition weather_at ::
  "('f, 'w) env \<Rightarrow> 'f pyval \<Rightarrow> 'f pyval \<Rightarrow> ('f response, 'f, 'w) io" where
  "weather_at env latitude longitude =
     io_bind (invoke (GetCurrentWeather latitude longitude (OPENWEATHER_API_KEY env))
                (get_current_weather env latitude longitude (OPENWEATHER_API_KEY env)))
       (\<lambda>current_weather.
     io_bind (invoke (GetFiveDayForecast latitude longitude (OPENWEATHER_API_KEY env))
                (get_five_day_forecast env latitude longitude (OPENWEATHER_API_KEY env)))
       (\<lambda>forecast.
     io_bind (invoke (GetPlaceIdFromCoordinates (GOOGLE_API_KEY env) latitude longitude)
                (get_place_id_from_coordinates env (GOOGLE_API_KEY env) latitude longitude))
       (\<lambda>place_id.
     io_bind (invoke (GetPhotoReference (GOOGLE_API_KEY env) place_id)
                (get_photo_reference env (GOOGLE_API_KEY env) place_id))
       (\<lambda>photo_reference.
     io_bind (invoke (GetPhoto photo_reference (GOOGLE_API_KEY env))
                (get_photo env photo_reference (GOOGLE_API_KEY env)))
       (\<lambda>photo_path.
     io_bind (invoke (GetLocationName latitude longitude)
                (get_location_name env latitude longitude))
       (\<lambda>location_name.
     io_bind (print [photo_path, location_name])
       (\<lambda>_.
     io_return (jsonify [(''current_weather'', current_weather),
                         (''forecast'', forecast)]))))))))"

definition weather :: "('f, 'w) env \<Rightarrow> ('f response, 'f, 'w) io" where
  "weather env =
     io_bind (invoke (GetLocationFromGoogle (GOOGLE_API_KEY env) None)
                (get_location_from_google env (GOOGLE_API_KEY env) None))
       (\<lambda>location_result.
     io_bind (io_lift (unpack_pair location_result))
       (\<lambda>(latitude, longitude).
     if latitude \<noteq> PNone \<and> longitude \<noteq> PNone then weather_at env latitude longitude
     else io_return unable_to_retrieve_location))"

section \<open>A concrete deployment\<close>

text \<open>
  Stand-ins for the helper modules, used to run the handlers on concrete requests. The
  world is the disk, a list of (path, contents) read from the front; floats are written
  as their decimal text. Every lookup succeeds, and \<^verbatim>\<open>get_photo\<close> stores the image
  under \<^verbatim>\<open>images/photo.jpg\<close> when it is given a reference.
\<close>

type_synonym disk = "(string \<times> string) list"

definition example_env :: "(string, disk) env" where
  "example_env =
     \<lparr>GOOGLE_API_KEY = PStr ''google-key'',
      OPENWEATHER_API_KEY = PStr ''openweather-key'',
      get_location_from_google =
        (\<lambda>key location w. (Inr (Some (PFloat ''48.8566'', PFloat ''2.3522'')), w)),
      get_location_name = (\<lambda>lat lon w. (Inr (PStr ''Paris, France''), w)),
      get_place_id_from_coordinates = (\<lambda>key lat lon w. (Inr (PStr ''place-1''), w)),
      get_current_weather = (\<lambda>lat lon key w. (Inr (PDict [(''temp'', PInt 21)]), w)),
      get_five_day_forecast =
        (\<lambda>lat lon key w. (Inr (PList [PDict [(''temp'', PInt 19)]]), w)),
      get_photo_reference = (\<lambda>key place_id w. (Inr (PStr ''photo-ref-1''), w)),
      get_photo =
        (\<lambda>photo_reference key w.
           if photo_reference = PNone then (Inr PNone, w)
           else (Inr (PStr ''photo.jpg''), (''images/photo.jpg'', ''JPEG'') # w))\<rparr>"

definition post_request :: "string pyval \<Rightarrow> string request" where
  "post_request data = \<lparr>get_json = Inr data\<rparr>"

text \<open>
  A framework that turns an unhandled exception into its own server error, and a static
  folder holding the entry document and one asset.
\<close>

definition example_framework :: "string framework" where
  "example_framework =
     \<lparr>as_server_error = (\<lambda>e. HTTPExc 500 ''500 Internal Server Error''),
      render = (\<lambda>e. \<lparr>status = (case e of HTTPExc n m \<Rightarrow> n | PyExc c m \<Rightarrow> 500),
                      body = HtmlBody (str_exn e)\<rparr>)\<rparr>"


text \<open>
  What the framework's \<^verbatim>\<open>request.get_json()\<close>, called without arguments, gives for the
  body of a request: a body that is not sent as JSON is refused with 415, JSON that does
  not parse with 400, and parsed JSON is returned as its value (\<^verbatim>\<open>None\<close> for \<^verbatim>\<open>null\<close>).
\<close>

datatype 'f raw_body =
    NoJsonBody
  | MalformedJson
  | JsonValue "'f pyval"

fun request_of_body :: "'f raw_body \<Rightarrow> 'f request" where
  "request_of_body NoJsonBody = \<lparr>get_json = Inl (HTTPExc 415 ''415 Unsupported Media Type'')\<rparr>"
| "request_of_body MalformedJson = \<lparr>get_json = Inl (HTTPExc 400 ''400 Bad Request'')\<rparr>"
| "request_of_body (JsonValue v) = \<lparr>get_json = Inr v\<rparr>"

text \<open>
  A static folder given by the tree on disk. \<^verbatim>\<open>os.path.exists\<close> holds of files and of
  directories alike; the framework's \<^verbatim>\<open>send_from_directory\<close> sends a regular file with
  status 200 and raises \<^verbatim>\<open>NotFound\<close> for anything else.
\<close>

datatype node = RegularFile | Directory

definition static_tree :: "string \<Rightarrow> (string \<times> node) list \<Rightarrow> 'f static_files" where
  "static_tree folder tree =
     \<lparr>static_folder = folder,
      path_exists = (\<lambda>p. map_of tree p \<noteq> None),
      send_from_directory =
        (\<lambda>directory p.
           case map_of tree (directory @ ''/'' @ p) of
             Some RegularFile \<Rightarrow> Inr \<lparr>status = 200, body = FileBody (directory @ ''/'' @ p)\<rparr>
           | _ \<Rightarrow> Inl (HTTPExc 404 ''404 Not Found''))\<rparr>"

section \<open>Sequencing lemmas\<close>

lemma io_bind_lift_Inr: "io_bind (io_lift (Inr x)) g s = g x s"
  by (simp add: io_bind_def io_lift_def)

lemma io_bind_lift_Inl: "io_bind (io_lift (Inl e)) g s = (Inl e, s)"
  by (simp add: io_bind_def io_lift_def)

lemma io_bind_return: "io_bind (io_return x) g s = g x s"
  by (simp add: io_bind_def io_return_def)

lemma io_bind_invoke_Inr:
  "f w = (Inr x, w') \<Longrightarrow> io_bind (invoke c f) g (log, w) = g x (log @ [c], w')"
  by (simp add: io_bind_def invoke_def)

lemma io_bind_invoke_Inl:
  "f w = (Inl e, w') \<Longrightarrow> io_bind (invoke c f) g (log, w) = (Inl e, (log @ [c], w'))"
  by (simp add: io_bind_def invoke_def)

lemma io_bind_print: "io_bind (print vs) g (log, w) = g () (log @ [Print vs], w)"
  by (simp add: io_bind_def print_def)

section \<open>POST /get_weather: the request body\<close>

text \<open>
  C3. A POST /get_weather whose JSON body is an object without a \<^verbatim>\<open>location\<close> key is
  answered with exactly \<^verbatim>\<open>{"error": "No location provided."}\<close>, status 200, and the
  handler makes no call: the call log and the world are as they were.
\<close>

theorem get_weather_no_location_key:
  assumes "get_json request = Inr (PDict kvs)"
    and "''location'' \<notin> fst ` set kvs"
  shows "get_weather env request (log, w) = (Inr no_location_provided, (log, w))
       \<and> status (no_location_provided :: 'f response) = 200
       \<and> body (no_location_provided :: 'f response)
           = JsonBody (PDict [(''error'', PStr ''No location provided.'')])"
proof -
  from assms(2) have "map_of kvs ''location'' = None"
    by (simp add: map_of_eq_None_iff)
  then have "py_get (PDict kvs) ''location'' = Inr PNone"
    by simp
  with assms(1) show ?thesis
    by (simp add: get_weather_def io_bind_lift_Inr io_return_def no_location_provided_def
        jsonify_def)
qed

theorem get_weather_no_location_key_witness:
  "get_weather example_env (post_request (PDict [])) ([], [])
     = (Inr \<lparr>status = 200, body = JsonBody (PDict [(''error'', PStr ''No location provided.'')])\<rparr>,
        ([], []))"
  using get_weather_no_location_key
    [where request = "post_request (PDict [])" and kvs = "[]" and env = example_env
       and log = "[]" and w = "[]"]
  by (simp add: post_request_def no_location_provided_def jsonify_def)

section \<open>POST /get_weather: resolving the location\<close>

lemma get_weather_resolved:
  assumes "get_json request = Inr data"
    and "py_get data ''location'' = Inr location"
    and "location \<noteq> PNone"
    and "get_location_from_google env (GOOGLE_API_KEY env) (Some location) w
           = (Inr (Some (latitude, longitude)), wl)"
  shows "get_weather env request (log, w)
       = get_weather_at env latitude longitude
           (log @ [GetLocationFromGoogle (GOOGLE_API_KEY env) (Some location)], wl)"
  using assms
  by (simp add: get_weather_def io_bind_lift_Inr io_bind_invoke_Inr)

text \<open>
  C5. A POST /get_weather with a location for which \<^verbatim>\<open>get_location_from_google\<close>
  returns \<^verbatim>\<open>None\<close> is answered with the payload
  \<^verbatim>\<open>{"error": "Unable to retrieve location from Google Geolocation API."}\<close>, and the
  resolver's is the only call made: no location name, place id, weather, forecast or
  photo call follows it.
\<close>

theorem get_weather_unresolved_location:
  assumes "get_json request = Inr data"
    and "py_get data ''location'' = Inr location"
    and "location \<noteq> PNone"
    and "get_location_from_google env (GOOGLE_API_KEY env) (Some location) w
           = (Inr None, w')"
  shows "get_weather env request (log, w)
       = (Inr unable_to_retrieve_location,
          (log @ [GetLocationFromGoogle (GOOGLE_API_KEY env) (Some location)], w'))
       \<and> body (unable_to_retrieve_location :: 'f response)
           = JsonBody (PDict [(''error'',
               PStr ''Unable to retrieve location from Google Geolocation API.'')])"
  using assms
  by (simp add: get_weather_def io_bind_lift_Inr io_bind_invoke_Inr io_return_def
      unable_to_retrieve_location_def jsonify_def)

theorem get_weather_unresolved_location_witness:
  "get_weather
     (example_env\<lparr>get_location_from_google := (\<lambda>key location w. (Inr None, w))\<rparr>)
     (post_request (PDict [(''location'', PStr ''Atlantis'')])) ([], [])
   = (Inr \<lparr>status = 200, body = JsonBody (PDict [(''error'',
              PStr ''Unable to retrieve location from Google Geolocation API.'')])\<rparr>,
      ([GetLocationFromGoogle (PStr ''google-key'') (Some (PStr ''Atlantis''))], []))"
  using get_weather_unresolved_location
    [where request = "post_request (PDict [(''location'', PStr ''Atlantis'')])"
       and data = "PDict [(''location'', PStr ''Atlantis'')]"
       and location = "PStr ''Atlantis''"
       and env = "example_env\<lparr>get_location_from_google := (\<lambda>key location w. (Inr None, w))\<rparr>"
       and w = "[]" and w' = "[]" and log = "[]"]
  by (simp add: post_request_def example_env_def unable_to_retrieve_location_def jsonify_def)

section \<open>POST /get_weather: the photo step\<close>

lemma fetch_photo_path_none:
  "io_bind (fetch_photo_path env PNone) g s = g PNone s"
  by (simp add: fetch_photo_path_def io_bind_return)

lemma fetch_photo_path_some:
  assumes "photo_reference \<noteq> PNone"
    and "get_photo env photo_reference (GOOGLE_API_KEY env) w = (Inr photo_filename, w')"
  shows "io_bind (fetch_photo_path env photo_reference) g (log, w)
       = g (if photo_filename \<noteq> PNone then PStr ''images/photo.jpg'' else PNone)
           (log @ [GetPhoto photo_reference (GOOGLE_API_KEY env)], w')"
  using assms
  by (simp add: fetch_photo_path_def io_bind_def invoke_def io_return_def)

lemma get_weather_at_to_photo:
  assumes "get_location_name env latitude longitude wl = (Inr location_name, wn)"
    and "get_place_id_from_coordinates env (GOOGLE_API_KEY env) latitude longitude wn
           = (Inr place_id, wp)"
    and "get_current_weather env latitude longitude (OPENWEATHER_API_KEY env) wp
           = (Inr current_weather, wc)"
    and "get_five_day_forecast env latitude longitude (OPENWEATHER_API_KEY env) wc
           = (Inr forecast, wq)"
    and "get_photo_reference env (GOOGLE_API_KEY env) place_id wq = (Inr photo_reference, wr)"
  shows "get_weather_at env latitude longitude (log, wl)
       = io_bind (fetch_photo_path env photo_reference)
           (\<lambda>photo_path.
              io_return (jsonify [(''current_weather'', current_weather),
                (''forecast'', forecast), (''photo_path'', photo_path),
                (''location'', location_name)]))
           (log @ [GetLocationName latitude longitude,
                   GetPlaceIdFromCoordinates (GOOGLE_API_KEY env) latitude longitude,
                   GetCurrentWeather latitude longitude (OPENWEATHER_API_KEY env),
                   GetFiveDayForecast latitude longitude (OPENWEATHER_API_KEY env),
                   GetPhotoReference (GOOGLE_API_KEY env) place_id], wr)"
  using assms
  by (simp add: get_weather_at_def io_bind_invoke_Inr)

text \<open>
  C4. A POST /get_weather that reaches the photo step and gets \<^verbatim>\<open>None\<close> from
  \<^verbatim>\<open>get_photo_reference\<close> returns normally: the payload carries the current weather,
  the forecast and the location name as fetched, \<^verbatim>\<open>photo_path\<close> is null, and
  \<^verbatim>\<open>get_photo\<close> is not called.
\<close>

theorem get_weather_without_photo_reference:
  assumes "get_json request = Inr data"
    and "py_get data ''location'' = Inr location"
    and "location \<noteq> PNone"
    and "get_location_from_google env (GOOGLE_API_KEY env) (Some location) w
           = (Inr (Some (latitude, longitude)), wl)"
    and "get_location_name env latitude longitude wl = (Inr location_name, wn)"
    and "get_place_id_from_coordinates env (GOOGLE_API_KEY env) latitude longitude wn
           = (Inr place_id, wp)"
    and "get_current_weather env latitude longitude (OPENWEATHER_API_KEY env) wp
           = (Inr current_weather, wc)"
    and "get_five_day_forecast env latitude longitude (OPENWEATHER_API_KEY env) wc
           = (Inr forecast, wq)"
    and "get_photo_reference env (GOOGLE_API_KEY env) place_id wq = (Inr PNone, wr)"
  shows "get_weather env request (log, w)
       = (Inr (jsonify [(''current_weather'', current_weather), (''forecast'', forecast),
                        (''photo_path'', PNone), (''location'', location_name)]),
          (log @ [GetLocationFromGoogle (GOOGLE_API_KEY env) (Some location),
                  GetLocationName latitude longitude,
                  GetPlaceIdFromCoordinates (GOOGLE_API_KEY env) latitude longitude,
                  GetCurrentWeather latitude longitude (OPENWEATHER_API_KEY env),
                  GetFiveDayForecast latitude longitude (OPENWEATHER_API_KEY env),
                  GetPhotoReference (GOOGLE_API_KEY env) place_id], wr))"
proof -
  have "get_weather env request (log, w)
      = get_weather_at env latitude longitude
          (log @ [GetLocationFromGoogle (GOOGLE_API_KEY env) (Some location)], wl)"
    using assms(1-4) by (rule get_weather_resolved)
  also have "\<dots> = io_bind (fetch_photo_path env PNone)
           (\<lambda>photo_path.
              io_return (jsonify [(''current_weather'', current_weather),
                (''forecast'', forecast), (''photo_path'', photo_path),
                (''location'', location_name)]))
           ((log @ [GetLocationFromGoogle (GOOGLE_API_KEY env) (Some location)]) @
                  [GetLocationName latitude longitude,
                   GetPlaceIdFromCoordinates (GOOGLE_API_KEY env) latitude longitude,
                   GetCurrentWeather latitude longitude (OPENWEATHER_API_KEY env),
                   GetFiveDayForecast latitude longitude (OPENWEATHER_API_KEY env),
                   GetPhotoReference (GOOGLE_API_KEY env) place_id], wr)"
    using assms(5-9) by (rule get_weather_at_to_photo)
  finally show ?thesis
    by (simp add: fetch_photo_path_none io_return_def)
qed

theorem get_weather_without_photo_reference_witness:
  "get_weather
     (example_env\<lparr>get_photo_reference := (\<lambda>key place_id w. (Inr PNone, w))\<rparr>)
     (post_request (PDict [(''location'', PStr ''Paris'')])) ([], [])
   = (Inr \<lparr>status = 200, body = JsonBody (PDict
              [(''current_weather'', PDict [(''temp'', PInt 21)]),
               (''forecast'', PList [PDict [(''temp'', PInt 19)]]),
               (''photo_path'', PNone),
               (''location'', PStr ''Paris, France'')])\<rparr>,
      ([GetLocationFromGoogle (PStr ''google-key'') (Some (PStr ''Paris'')),
        GetLocationName (PFloat ''48.8566'') (PFloat ''2.3522''),
        GetPlaceIdFromCoordinates (PStr ''google-key'') (PFloat ''48.8566'') (PFloat ''2.3522''),
        GetCurrentWeather (PFloat ''48.8566'') (PFloat ''2.3522'') (PStr ''openweather-key''),
        GetFiveDayForecast (PFloat ''48.8566'') (PFloat ''2.3522'') (PStr ''openweather-key''),
        GetPhotoReference (PStr ''google-key'') (PStr ''place-1'')], []))"
  using get_weather_without_photo_reference
    [where request = "post_request (PDict [(''location'', PStr ''Paris'')])"
       and data = "PDict [(''location'', PStr ''Paris'')]"
       and location = "PStr ''Paris''"
       and env = "example_env\<lparr>get_photo_reference := (\<lambda>key place_id w. (Inr PNone, w))\<rparr>"
       and latitude = "PFloat ''48.8566''" and longitude = "PFloat ''2.3522''"
       and location_name = "PStr ''Paris, France''" and place_id = "PStr ''place-1''"
       and current_weather = "PDict [(''temp'', PInt 21)]"
       and forecast = "PList [PDict [(''temp'', PInt 19)]]"
       and w = "[]" and wl = "[]" and wn = "[]" and wp = "[]" and wc = "[]" and wq = "[]"
       and wr = "[]" and log = "[]"]
  by (simp add: post_request_def example_env_def jsonify_def)

section \<open>POST /get_weather: the full payload\<close>

text \<open>
  C2. A POST /get_weather with body \<^verbatim>\<open>{"location": "Paris"}\<close> (any location string) in
  which every upstream call succeeds (the location resolves, the name is a string, the
  current weather is not null, the forecast is a sequence, and the photo download, when
  it is attempted, yields a file) returns a payload with that current weather, that
  forecast, that location name, and \<^verbatim>\<open>photo_path\<close> equal to \<^verbatim>\<open>"images/photo.jpg"\<close> when
  a photo reference was found, null otherwise.
\<close>

theorem get_weather_all_upstream_succeed:
  assumes "get_json request = Inr (PDict kvs)"
    and "map_of kvs ''location'' = Some (PStr location)"
    and "get_location_from_google env (GOOGLE_API_KEY env) (Some (PStr location)) w
           = (Inr (Some (latitude, longitude)), wl)"
    and "get_location_name env latitude longitude wl = (Inr (PStr location_name), wn)"
    and "get_place_id_from_coordinates env (GOOGLE_API_KEY env) latitude longitude wn
           = (Inr place_id, wp)"
    and "get_current_weather env latitude longitude (OPENWEATHER_API_KEY env) wp
           = (Inr current_weather, wc)"
    and "current_weather \<noteq> PNone"
    and "get_five_day_forecast env latitude longitude (OPENWEATHER_API_KEY env) wc
           = (Inr (PList forecast), wq)"
    and "get_photo_reference env (GOOGLE_API_KEY env) place_id wq = (Inr photo_reference, wr)"
    and "photo_reference = PNone
         \<or> (\<exists>photo_filename wd.
               get_photo env photo_reference (GOOGLE_API_KEY env) wr = (Inr photo_filename, wd)
             \<and> photo_filename \<noteq> PNone)"
  shows "\<exists>r. fst (get_weather env request (log, w)) = Inr r
       \<and> status r = 200
       \<and> body r = JsonBody (PDict
            [(''current_weather'', current_weather),
             (''forecast'', PList forecast),
             (''photo_path'',
                if photo_reference \<noteq> PNone then PStr ''images/photo.jpg'' else PNone),
             (''location'', PStr location_name)])
       \<and> current_weather \<noteq> PNone"
proof -
  let ?calls = "log @ [GetLocationFromGoogle (GOOGLE_API_KEY env) (Some (PStr location))]"
  let ?k = "\<lambda>photo_path.
              io_return (jsonify [(''current_weather'', current_weather),
                (''forecast'', PList forecast), (''photo_path'', photo_path),
                (''location'', PStr location_name)])"
  have loc: "py_get (PDict kvs) ''location'' = Inr (PStr location)"
    using assms(2) by simp
  have "get_weather env request (log, w) = get_weather_at env latitude longitude (?calls, wl)"
    using assms(1) loc _ assms(3) by (rule get_weather_resolved) simp
  also have "\<dots> = io_bind (fetch_photo_path env photo_reference) ?k
           (?calls @ [GetLocationName latitude longitude,
                   GetPlaceIdFromCoordinates (GOOGLE_API_KEY env) latitude longitude,
                   GetCurrentWeather latitude longitude (OPENWEATHER_API_KEY env),
                   GetFiveDayForecast latitude longitude (OPENWEATHER_API_KEY env),
                   GetPhotoReference (GOOGLE_API_KEY env) place_id], wr)"
    using assms(4,5,6,8,9) by (rule get_weather_at_to_photo)
  finally have run: "get_weather env request (log, w)
      = io_bind (fetch_photo_path env photo_reference) ?k
           (?calls @ [GetLocationName latitude longitude,
                   GetPlaceIdFromCoordinates (GOOGLE_API_KEY env) latitude longitude,
                   GetCurrentWeather latitude longitude (OPENWEATHER_API_KEY env),
                   GetFiveDayForecast latitude longitude (OPENWEATHER_API_KEY env),
                   GetPhotoReference (GOOGLE_API_KEY env) place_id], wr)" .
  show ?thesis
  proof (cases "photo_reference = PNone")
    case True
    with run assms(7) show ?thesis
      by (simp add: fetch_photo_path_none io_return_def jsonify_def)
  next
    case False
    with assms(10) obtain photo_filename wd
      where photo: "get_photo env photo_reference (GOOGLE_API_KEY env) wr = (Inr photo_filename, wd)"
        and found: "photo_filename \<noteq> PNone"
      by blast
    from run False found assms(7) show ?thesis
      by (simp add: fetch_photo_path_some [OF False photo] io_return_def jsonify_def)
  qed
qed

theorem get_weather_all_upstream_succeed_witness:
  "fst (get_weather example_env (post_request (PDict [(''location'', PStr ''Paris'')])) ([], []))
   = Inr \<lparr>status = 200, body = JsonBody (PDict
            [(''current_weather'', PDict [(''temp'', PInt 21)]),
             (''forecast'', PList [PDict [(''temp'', PInt 19)]]),
             (''photo_path'', PStr ''images/photo.jpg''),
             (''location'', PStr ''Paris, France'')])\<rparr>"
  using get_weather_all_upstream_succeed
    [where request = "post_request (PDict [(''location'', PStr ''Paris'')])"
       and kvs = "[(''location'', PStr ''Paris'')]"
       and location = "''Paris''"
       and env = example_env
       and latitude = "PFloat ''48.8566''" and longitude = "PFloat ''2.3522''"
       and location_name = "''Paris, France''" and place_id = "PStr ''place-1''"
       and current_weather = "PDict [(''temp'', PInt 21)]"
       and forecast = "[PDict [(''temp'', PInt 19)]]"
       and photo_reference = "PStr ''photo-ref-1''"
       and w = "[]" and wl = "[]" and wn = "[]" and wp = "[]" and wc = "[]" and wq = "[]"
       and wr = "[]" and log = "[]"]
  by (auto simp add: post_request_def example_env_def)

section \<open>GET /weather\<close>

lemma weather_resolved:
  assumes "get_location_from_google env (GOOGLE_API_KEY env) None w
             = (Inr (Some (latitude, longitude)), wl)"
    and "latitude \<noteq> PNone" and "longitude \<noteq> PNone"
  shows "weather env (log, w)
       = weather_at env latitude longitude
           (log @ [GetLocationFromGoogle (GOOGLE_API_KEY env) None], wl)"
  using assms
  by (simp add: weather_def io_bind_invoke_Inr io_bind_lift_Inr)

lemma weather_location_none:
  assumes "get_location_from_google env (GOOGLE_API_KEY env) None w = (Inr None, wl)"
  shows "weather env (log, w)
       = (Inl (PyExc ''TypeError'' ''cannot unpack non-iterable NoneType object''),
          (log @ [GetLocationFromGoogle (GOOGLE_API_KEY env) None], wl))"
  using assms
  by (simp add: weather_def io_bind_invoke_Inr io_bind_lift_Inl)

lemma weather_coordinate_none:
  assumes "get_location_from_google env (GOOGLE_API_KEY env) None w
             = (Inr (Some (latitude, longitude)), wl)"
    and "latitude = PNone \<or> longitude = PNone"
  shows "weather env (log, w)
       = (Inr unable_to_retrieve_location,
          (log @ [GetLocationFromGoogle (GOOGLE_API_KEY env) None], wl))"
  using assms
  by (auto simp add: weather_def io_bind_invoke_Inr io_bind_lift_Inr io_return_def)

lemma weather_at_run:
  assumes "get_current_weather env latitude longitude (OPENWEATHER_API_KEY env) wl
             = (Inr current_weather, wc)"
    and "get_five_day_forecast env latitude longitude (OPENWEATHER_API_KEY env) wc
           = (Inr forecast, wq)"
    and "get_place_id_from_coordinates env (GOOGLE_API_KEY env) latitude longitude wq
           = (Inr place_id, wp)"
    and "get_photo_reference env (GOOGLE_API_KEY env) place_id wp = (Inr photo_reference, wr)"
    and "get_photo env photo_reference (GOOGLE_API_KEY env) wr = (Inr photo_path, wd)"
    and "get_location_name env latitude longitude wd = (Inr location_name, wn)"
  shows "weather_at env latitude longitude (log, wl)
       = (Inr (jsonify [(''current_weather'', current_weather), (''forecast'', forecast)]),
          (log @ [GetCurrentWeather latitude longitude (OPENWEATHER_API_KEY env),
                  GetFiveDayForecast latitude longitude (OPENWEATHER_API_KEY env),
                  GetPlaceIdFromCoordinates (GOOGLE_API_KEY env) latitude longitude,
                  GetPhotoReference (GOOGLE_API_KEY env) place_id,
                  GetPhoto photo_reference (GOOGLE_API_KEY env),
                  GetLocationName latitude longitude,
                  Print [photo_path, location_name]], wn))"
  using assms
  by (simp add: weather_at_def io_bind_invoke_Inr io_bind_print io_return_def)

text \<open>Backward: a normal return of a sequence comes from a normal return of each part.\<close>

lemma io_bind_invoke_eq_Inr:
  "io_bind (invoke c f) g (log, w) = (Inr r, s')
   \<longleftrightarrow> (\<exists>x w'. f w = (Inr x, w') \<and> g x (log @ [c], w') = (Inr r, s'))"
  by (auto simp add: io_bind_def invoke_def split: prod.splits sum.splits)

lemma weather_at_Inr_iff:
  "weather_at env latitude longitude (log, wl) = (Inr r, s')
   \<longleftrightarrow> (\<exists>current_weather wc forecast wq place_id wp photo_reference wr photo_path wd
          location_name wn.
        get_current_weather env latitude longitude (OPENWEATHER_API_KEY env) wl
          = (Inr current_weather, wc)
      \<and> get_five_day_forecast env latitude longitude (OPENWEATHER_API_KEY env) wc
          = (Inr forecast, wq)
      \<and> get_place_id_from_coordinates env (GOOGLE_API_KEY env) latitude longitude wq
          = (Inr place_id, wp)
      \<and> get_photo_reference env (GOOGLE_API_KEY env) place_id wp = (Inr photo_reference, wr)
      \<and> get_photo env photo_reference (GOOGLE_API_KEY env) wr = (Inr photo_path, wd)
      \<and> get_location_name env latitude longitude wd = (Inr location_name, wn)
      \<and> r = jsonify [(''current_weather'', current_weather), (''forecast'', forecast)]
      \<and> s' = (log @ [GetCurrentWeather latitude longitude (OPENWEATHER_API_KEY env),
                  GetFiveDayForecast latitude longitude (OPENWEATHER_API_KEY env),
                  GetPlaceIdFromCoordinates (GOOGLE_API_KEY env) latitude longitude,
                  GetPhotoReference (GOOGLE_API_KEY env) place_id,
                  GetPhoto photo_reference (GOOGLE_API_KEY env),
                  GetLocationName latitude longitude,
                  Print [photo_path, location_name]], wn))"
  apply (simp add: weather_at_def io_bind_invoke_eq_Inr io_bind_print io_return_def)
  apply (rule iffI)
   apply (elim exE conjE)
   apply (intro exI conjI; assumption?)
   apply simp_all
  apply (elim exE conjE)
  apply (intro exI conjI; assumption?)
  apply simp_all
  done

lemma weather_Inr_cases:
  assumes "weather env (log, w) = (Inr r, s')"
  obtains (unresolved) latitude longitude wl
    where "get_location_from_google env (GOOGLE_API_KEY env) None w
             = (Inr (Some (latitude, longitude)), wl)"
      and "latitude = PNone \<or> longitude = PNone"
      and "r = unable_to_retrieve_location"
      and "s' = (log @ [GetLocationFromGoogle (GOOGLE_API_KEY env) None], wl)"
  | (resolved) latitude longitude wl
    where "get_location_from_google env (GOOGLE_API_KEY env) None w
             = (Inr (Some (latitude, longitude)), wl)"
      and "latitude \<noteq> PNone" and "longitude \<noteq> PNone"
      and "weather_at env latitude longitude
             (log @ [GetLocationFromGoogle (GOOGLE_API_KEY env) None], wl) = (Inr r, s')"
proof -
  from assms obtain x wl
    where loc: "get_location_from_google env (GOOGLE_API_KEY env) None w = (Inr x, wl)"
      and rest: "io_bind (io_lift (unpack_pair x))
           (\<lambda>(latitude, longitude).
              if latitude \<noteq> PNone \<and> longitude \<noteq> PNone
              then weather_at env latitude longitude
              else io_return unable_to_retrieve_location)
           (log @ [GetLocationFromGoogle (GOOGLE_API_KEY env) None], wl) = (Inr r, s')"
    by (auto simp add: weather_def io_bind_invoke_eq_Inr)
  show thesis
  proof (cases x)
    case None
    with rest show thesis
      by (simp add: io_bind_lift_Inl)
  next
    case (Some p)
    obtain latitude longitude where p: "p = (latitude, longitude)"
      by (cases p)
    show thesis
    proof (cases "latitude \<noteq> PNone \<and> longitude \<noteq> PNone")
      case True
      with rest Some p loc show thesis
        by (intro resolved [of latitude longitude wl]) (simp_all add: io_bind_lift_Inr)
    next
      case False
      with rest Some p loc show thesis
        by (intro unresolved [of latitude longitude wl])
           (auto simp add: io_bind_lift_Inr io_return_def)
    qed
  qed
qed



lemma example_weather_run:
  "weather example_env ([], [])
   = (Inr \<lparr>status = 200, body = JsonBody (PDict
              [(''current_weather'', PDict [(''temp'', PInt 21)]),
               (''forecast'', PList [PDict [(''temp'', PInt 19)]])])\<rparr>,
      ([GetLocationFromGoogle (PStr ''google-key'') None,
        GetCurrentWeather (PFloat ''48.8566'') (PFloat ''2.3522'') (PStr ''openweather-key''),
        GetFiveDayForecast (PFloat ''48.8566'') (PFloat ''2.3522'') (PStr ''openweather-key''),
        GetPlaceIdFromCoordinates (PStr ''google-key'') (PFloat ''48.8566'') (PFloat ''2.3522''),
        GetPhotoReference (PStr ''google-key'') (PStr ''place-1''),
        GetPhoto (PStr ''photo-ref-1'') (PStr ''google-key''),
        GetLocationName (PFloat ''48.8566'') (PFloat ''2.3522''),
        Print [PStr ''photo.jpg'', PStr ''Paris, France'']],
       [(''images/photo.jpg'', ''JPEG'')]))"
proof -
  have "weather example_env ([], [])
      = weather_at example_env (PFloat ''48.8566'') (PFloat ''2.3522'')
          ([] @ [GetLocationFromGoogle (GOOGLE_API_KEY example_env) None], [])"
    by (rule weather_resolved) (simp_all add: example_env_def)
  also have "\<dots> = (Inr (jsonify [(''current_weather'', PDict [(''temp'', PInt 21)]),
                      (''forecast'', PList [PDict [(''temp'', PInt 19)]])]),
          (([] @ [GetLocationFromGoogle (GOOGLE_API_KEY example_env) None]) @
             [GetCurrentWeather (PFloat ''48.8566'') (PFloat ''2.3522'')
                (OPENWEATHER_API_KEY example_env),
              GetFiveDayForecast (PFloat ''48.8566'') (PFloat ''2.3522'')
                (OPENWEATHER_API_KEY example_env),
              GetPlaceIdFromCoordinates (GOOGLE_API_KEY example_env) (PFloat ''48.8566'')
                (PFloat ''2.3522''),
              GetPhotoReference (GOOGLE_API_KEY example_env) (PStr ''place-1''),
              GetPhoto (PStr ''photo-ref-1'') (GOOGLE_API_KEY example_env),
              GetLocationName (PFloat ''48.8566'') (PFloat ''2.3522''),
              Print [PStr ''photo.jpg'', PStr ''Paris, France'']],
           [(''images/photo.jpg'', ''JPEG'')]))"
    by (rule weather_at_run) (simp_all add: example_env_def)
  finally show ?thesis
    by (simp add: jsonify_def example_env_def)
qed

lemma example_weather_payload_not_error:
  "\<lparr>status = 200, body = JsonBody (PDict
       [(''current_weather'', PDict [(''temp'', PInt 21)]),
        (''forecast'', PList [PDict [(''temp'', PInt 19)]])])\<rparr>
   \<noteq> (unable_to_retrieve_location :: string response)"
  by (simp add: unable_to_retrieve_location_def jsonify_def)


text \<open>
  C10. A successful GET /weather has, after the two weather fetches, looked up the
  place id, looked up the photo reference, called \<^verbatim>\<open>get_photo\<close> with that reference
  (whatever it is) and looked up the location name, in this order, each in the world
  the previous call left, so what \<^verbatim>\<open>get_photo\<close> wrote to disk stays written. The
  payload is built from the current weather and the forecast alone.
\<close>

theorem weather_success_side_effects:
  assumes "weather env (log, w) = (Inr r, s')"
    and "r \<noteq> unable_to_retrieve_location"
  shows "\<exists>latitude longitude wl current_weather wc forecast wq place_id wp photo_reference wr
           photo_path wd location_name wn.
        get_location_from_google env (GOOGLE_API_KEY env) None w
          = (Inr (Some (latitude, longitude)), wl)
      \<and> get_current_weather env latitude longitude (OPENWEATHER_API_KEY env) wl
          = (Inr current_weather, wc)
      \<and> get_five_day_forecast env latitude longitude (OPENWEATHER_API_KEY env) wc
          = (Inr forecast, wq)
      \<and> get_place_id_from_coordinates env (GOOGLE_API_KEY env) latitude longitude wq
          = (Inr place_id, wp)
      \<and> get_photo_reference env (GOOGLE_API_KEY env) place_id wp = (Inr photo_reference, wr)
      \<and> get_photo env photo_reference (GOOGLE_API_KEY env) wr = (Inr photo_path, wd)
      \<and> get_location_name env latitude longitude wd = (Inr location_name, wn)
      \<and> s' = (log @ [GetLocationFromGoogle (GOOGLE_API_KEY env) None,
                     GetCurrentWeather latitude longitude (OPENWEATHER_API_KEY env),
                     GetFiveDayForecast latitude longitude (OPENWEATHER_API_KEY env),
                     GetPlaceIdFromCoordinates (GOOGLE_API_KEY env) latitude longitude,
                     GetPhotoReference (GOOGLE_API_KEY env) place_id,
                     GetPhoto photo_reference (GOOGLE_API_KEY env),
                     GetLocationName latitude longitude,
                     Print [photo_path, location_name]], wn)
      \<and> r = jsonify [(''current_weather'', current_weather), (''forecast'', forecast)]"
  using assms(1)
proof (cases rule: weather_Inr_cases)
  case unresolved
  with assms(2) show ?thesis by simp
next
  case (resolved latitude longitude wl)
  from resolved(4) obtain current_weather wc forecast wq place_id wp photo_reference wr
      photo_path wd location_name wn
    where "get_current_weather env latitude longitude (OPENWEATHER_API_KEY env) wl
             = (Inr current_weather, wc)"
      and "get_five_day_forecast env latitude longitude (OPENWEATHER_API_KEY env) wc
             = (Inr forecast, wq)"
      and "get_place_id_from_coordinates env (GOOGLE_API_KEY env) latitude longitude wq
             = (Inr place_id, wp)"
      and "get_photo_reference env (GOOGLE_API_KEY env) place_id wp
             = (Inr photo_reference, wr)"
      and "get_photo env photo_reference (GOOGLE_API_KEY env) wr = (Inr photo_path, wd)"
      and "get_location_name env latitude longitude wd = (Inr location_name, wn)"
      and "r = jsonify [(''current_weather'', current_weather), (''forecast'', forecast)]"
      and "s' = ((log @ [GetLocationFromGoogle (GOOGLE_API_KEY env) None]) @
                 [GetCurrentWeather latitude longitude (OPENWEATHER_API_KEY env),
                  GetFiveDayForecast latitude longitude (OPENWEATHER_API_KEY env),
                  GetPlaceIdFromCoordinates (GOOGLE_API_KEY env) latitude longitude,
                  GetPhotoReference (GOOGLE_API_KEY env) place_id,
                  GetPhoto photo_reference (GOOGLE_API_KEY env),
                  GetLocationName latitude longitude,
                  Print [photo_path, location_name]], wn)"
    unfolding weather_at_Inr_iff by blast
  with resolved(1) show ?thesis
    by (simp del: append_assoc)
qed

theorem weather_success_side_effects_witness:
  "\<exists>photo_reference wr photo_path wd.
      get_photo example_env photo_reference (PStr ''google-key'') wr = (Inr photo_path, wd)
    \<and> map_of wd ''images/photo.jpg'' = Some ''JPEG''
    \<and> GetPhoto photo_reference (PStr ''google-key'')
        \<in> set (fst (snd (weather example_env ([], []))))"
proof -
  from weather_success_side_effects
         [OF example_weather_run example_weather_payload_not_error]
  obtain place_id wp photo_reference wr photo_path wd latitude longitude location_name wn
    where ref: "get_photo_reference example_env (GOOGLE_API_KEY example_env) place_id wp
                  = (Inr photo_reference, wr)"
      and photo: "get_photo example_env photo_reference (GOOGLE_API_KEY example_env) wr
                  = (Inr photo_path, wd)"
      and log: "([GetLocationFromGoogle (PStr ''google-key'') None,
        GetCurrentWeather (PFloat ''48.8566'') (PFloat ''2.3522'') (PStr ''openweather-key''),
        GetFiveDayForecast (PFloat ''48.8566'') (PFloat ''2.3522'') (PStr ''openweather-key''),
        GetPlaceIdFromCoordinates (PStr ''google-key'') (PFloat ''48.8566'') (PFloat ''2.3522''),
        GetPhotoReference (PStr ''google-key'') (PStr ''place-1''),
        GetPhoto (PStr ''photo-ref-1'') (PStr ''google-key''),
        GetLocationName (PFloat ''48.8566'') (PFloat ''2.3522''),
        Print [PStr ''photo.jpg'', PStr ''Paris, France'']],
       [(''images/photo.jpg'', ''JPEG'')])
        = ([] @ [GetLocationFromGoogle (GOOGLE_API_KEY example_env) None,
                     GetCurrentWeather latitude longitude (OPENWEATHER_API_KEY example_env),
                     GetFiveDayForecast latitude longitude (OPENWEATHER_API_KEY example_env),
                     GetPlaceIdFromCoordinates (GOOGLE_API_KEY example_env) latitude longitude,
                     GetPhotoReference (GOOGLE_API_KEY example_env) place_id,
                     GetPhoto photo_reference (GOOGLE_API_KEY example_env),
                     GetLocationName latitude longitude,
                     Print [photo_path, location_name]], wn)"
    by blast
  from log have pr: "photo_reference = PStr ''photo-ref-1''"
    by simp
  from photo pr have "map_of wd ''images/photo.jpg'' = Some ''JPEG''"
    by (auto simp add: example_env_def)
  moreover from photo have "get_photo example_env photo_reference (PStr ''google-key'') wr
      = (Inr photo_path, wd)"
    by (simp add: example_env_def)
  moreover from pr have "GetPhoto photo_reference (PStr ''google-key'')
        \<in> set (fst (snd (weather example_env ([], []))))"
    by (simp add: example_weather_run)
  ultimately show ?thesis
    by blast
qed

text \<open>
  C1. When \<^verbatim>\<open>get_location_from_google\<close> returns \<^verbatim>\<open>None\<close>, GET /weather does not reach its
  error payload: unpacking \<^verbatim>\<open>None\<close> into \<^verbatim>\<open>latitude, longitude\<close> raises \<^verbatim>\<open>TypeError\<close>,
  and the request ends in the handler for status 500. (The POST handler tests the
  result against \<^verbatim>\<open>None\<close> before it unpacks.)
\<close>

theorem weather_geolocation_none_raises:
  "weather (example_env\<lparr>get_location_from_google := (\<lambda>key location w. (Inr None, w))\<rparr>)
     ([], [])
   = (Inl (PyExc ''TypeError'' ''cannot unpack non-iterable NoneType object''),
      ([GetLocationFromGoogle (PStr ''google-key'') None], []))
   \<and> status (dispatch fw (fst (weather
        (example_env\<lparr>get_location_from_google := (\<lambda>key location w. (Inr None, w))\<rparr>)
        ([], [])))) = 500"
  by (simp add: weather_location_none [where wl = "[]"] example_env_def dispatch_def
      errorhandler_def internal_server_error_def with_status_def)

section \<open>Static files\<close>

lemma serve_empty_path:
  "serve app '''' = send_from_directory app (static_folder app) ''index.html''"
  by (simp add: serve_def)




lemma serve_static_tree:
  assumes "path \<noteq> ''''"
  shows "map_of tree (folder @ ''/'' @ path) = None
         \<Longrightarrow> map_of tree (folder @ ''/'' @ ''index.html'') = Some RegularFile
         \<Longrightarrow> serve (static_tree folder tree) path
             = Inr \<lparr>status = 200, body = FileBody (folder @ ''/'' @ ''index.html'')\<rparr>"
    and "map_of tree (folder @ ''/'' @ path) = Some RegularFile
         \<Longrightarrow> serve (static_tree folder tree) path
             = Inr \<lparr>status = 200, body = FileBody (folder @ ''/'' @ path)\<rparr>"
  using assms
  by (simp_all add: serve_def static_tree_def)

section \<open>Exceptions and the error handlers\<close>

lemma get_weather_at_current_weather_raises:
  assumes "get_location_name env latitude longitude wl = (Inr location_name, wn)"
    and "get_place_id_from_coordinates env (GOOGLE_API_KEY env) latitude longitude wn
           = (Inr place_id, wp)"
    and "get_current_weather env latitude longitude (OPENWEATHER_API_KEY env) wp = (Inl e, wc)"
  shows "get_weather_at env latitude longitude (log, wl)
       = (Inl e, (log @ [GetLocationName latitude longitude,
                   GetPlaceIdFromCoordinates (GOOGLE_API_KEY env) latitude longitude,
                   GetCurrentWeather latitude longitude (OPENWEATHER_API_KEY env)], wc))"
  using assms
  by (simp add: get_weather_at_def io_bind_invoke_Inr io_bind_invoke_Inl)

lemma get_weather_at_forecast_raises:
  assumes "get_location_name env latitude longitude wl = (Inr location_name, wn)"
    and "get_place_id_from_coordinates env (GOOGLE_API_KEY env) latitude longitude wn
           = (Inr place_id, wp)"
    and "get_current_weather env latitude longitude (OPENWEATHER_API_KEY env) wp
           = (Inr current_weather, wc)"
    and "get_five_day_forecast env latitude longitude (OPENWEATHER_API_KEY env) wc
           = (Inl e, wq)"
  shows "get_weather_at env latitude longitude (log, wl)
       = (Inl e, (log @ [GetLocationName latitude longitude,
                   GetPlaceIdFromCoordinates (GOOGLE_API_KEY env) latitude longitude,
                   GetCurrentWeather latitude longitude (OPENWEATHER_API_KEY env),
                   GetFiveDayForecast latitude longitude (OPENWEATHER_API_KEY env)], wq))"
  using assms
  by (simp add: get_weather_at_def io_bind_invoke_Inr io_bind_invoke_Inl)

lemma weather_at_current_weather_raises:
  assumes "get_current_weather env latitude longitude (OPENWEATHER_API_KEY env) wl = (Inl e, wc)"
  shows "weather_at env latitude longitude (log, wl)
       = (Inl e, (log @ [GetCurrentWeather latitude longitude (OPENWEATHER_API_KEY env)], wc))"
  using assms
  by (simp add: weather_at_def io_bind_invoke_Inl)

lemma weather_at_forecast_raises:
  assumes "get_current_weather env latitude longitude (OPENWEATHER_API_KEY env) wl
             = (Inr current_weather, wc)"
    and "get_five_day_forecast env latitude longitude (OPENWEATHER_API_KEY env) wc
           = (Inl e, wq)"
  shows "weather_at env latitude longitude (log, wl)
       = (Inl e, (log @ [GetCurrentWeather latitude longitude (OPENWEATHER_API_KEY env),
                         GetFiveDayForecast latitude longitude (OPENWEATHER_API_KEY env)], wq))"
  using assms
  by (simp add: weather_at_def io_bind_invoke_Inr io_bind_invoke_Inl)

lemma internal_server_error_response:
  "internal_server_error e
     = \<lparr>status = 500, body = JsonBody (PDict [(''error'', PStr (str_exn e))])\<rparr>"
  by (simp add: internal_server_error_def with_status_def jsonify_def)

lemma not_found_error_response:
  "not_found_error e
     = \<lparr>status = 404, body = JsonBody (PDict [(''error'', PStr (str_exn e))])\<rparr>"
  by (simp add: not_found_error_def with_status_def jsonify_def)

lemma dispatch_python_exception:
  "dispatch fw (Inl (PyExc c m)) = internal_server_error (as_server_error fw (PyExc c m))"
  by (simp add: dispatch_def errorhandler_def)

lemma dispatch_not_found:
  "dispatch fw (Inl (HTTPExc 404 m)) = not_found_error (HTTPExc 404 m)"
  by (simp add: dispatch_def errorhandler_def)

text \<open>
  C8. When \<^verbatim>\<open>get_current_weather\<close> or \<^verbatim>\<open>get_five_day_forecast\<close> raises, in POST
  /get_weather as in GET /weather, the handler does not catch the exception: it is the
  outcome of the view. The framework hands an ordinary exception to the handler
  registered for 500, which answers \<^verbatim>\<open>{"error": str(e)}\<close> with status 500 for the error
  \<open>e\<close> it is given; the handler for 404 answers \<^verbatim>\<open>{"error": str(e)}\<close> with status 404.
\<close>

theorem weather_fetch_exception_propagates:
  "(get_json request = Inr data \<and> py_get data ''location'' = Inr location
      \<and> location \<noteq> PNone
      \<and> get_location_from_google env (GOOGLE_API_KEY env) (Some location) w
          = (Inr (Some (latitude, longitude)), wl)
      \<and> get_location_name env latitude longitude wl = (Inr location_name, wn)
      \<and> get_place_id_from_coordinates env (GOOGLE_API_KEY env) latitude longitude wn
          = (Inr place_id, wp)
      \<and> (get_current_weather env latitude longitude (OPENWEATHER_API_KEY env) wp
            = (Inl e, wc)
         \<or> get_current_weather env latitude longitude (OPENWEATHER_API_KEY env) wp
              = (Inr current_weather, wc)
           \<and> get_five_day_forecast env latitude longitude (OPENWEATHER_API_KEY env) wc
              = (Inl e, wq))
    \<longrightarrow> fst (get_weather env request (log, w)) = Inl e)
   \<and> (get_location_from_google env (GOOGLE_API_KEY env) None w
          = (Inr (Some (latitude, longitude)), wl)
      \<and> latitude \<noteq> PNone \<and> longitude \<noteq> PNone
      \<and> (get_current_weather env latitude longitude (OPENWEATHER_API_KEY env) wl
            = (Inl e, wc)
         \<or> get_current_weather env latitude longitude (OPENWEATHER_API_KEY env) wl
              = (Inr current_weather, wc)
           \<and> get_five_day_forecast env latitude longitude (OPENWEATHER_API_KEY env) wc
              = (Inl e, wq))
    \<longrightarrow> fst (weather env (log, w)) = Inl e)
   \<and> dispatch fw (Inl (PyExc c m))
       = \<lparr>status = 500, body = JsonBody (PDict
            [(''error'', PStr (str_exn (as_server_error fw (PyExc c m))))])\<rparr>
   \<and> internal_server_error e'
       = \<lparr>status = 500, body = JsonBody (PDict [(''error'', PStr (str_exn e'))])\<rparr>
   \<and> not_found_error e'
       = \<lparr>status = 404, body = JsonBody (PDict [(''error'', PStr (str_exn e'))])\<rparr>"
proof (intro conjI impI)
  assume a: "get_json request = Inr data \<and> py_get data ''location'' = Inr location
      \<and> location \<noteq> PNone
      \<and> get_location_from_google env (GOOGLE_API_KEY env) (Some location) w
          = (Inr (Some (latitude, longitude)), wl)
      \<and> get_location_name env latitude longitude wl = (Inr location_name, wn)
      \<and> get_place_id_from_coordinates env (GOOGLE_API_KEY env) latitude longitude wn
          = (Inr place_id, wp)
      \<and> (get_current_weather env latitude longitude (OPENWEATHER_API_KEY env) wp
            = (Inl e, wc)
         \<or> get_current_weather env latitude longitude (OPENWEATHER_API_KEY env) wp
              = (Inr current_weather, wc)
           \<and> get_five_day_forecast env latitude longitude (OPENWEATHER_API_KEY env) wc
              = (Inl e, wq))"
  then have "get_json request = Inr data" and "py_get data ''location'' = Inr location"
    and "location \<noteq> PNone"
    and "get_location_from_google env (GOOGLE_API_KEY env) (Some location) w
          = (Inr (Some (latitude, longitude)), wl)"
    by blast+
  then have run: "get_weather env request (log, w)
      = get_weather_at env latitude longitude
          (log @ [GetLocationFromGoogle (GOOGLE_API_KEY env) (Some location)], wl)"
    by (rule get_weather_resolved)
  from a have name: "get_location_name env latitude longitude wl = (Inr location_name, wn)"
    and place: "get_place_id_from_coordinates env (GOOGLE_API_KEY env) latitude longitude wn
          = (Inr place_id, wp)"
    by blast+
  from a consider
      (current) "get_current_weather env latitude longitude (OPENWEATHER_API_KEY env) wp
            = (Inl e, wc)"
    | (forecast) "get_current_weather env latitude longitude (OPENWEATHER_API_KEY env) wp
              = (Inr current_weather, wc)"
        "get_five_day_forecast env latitude longitude (OPENWEATHER_API_KEY env) wc
              = (Inl e, wq)"
    by blast
  then show "fst (get_weather env request (log, w)) = Inl e"
  proof cases
    case current
    show ?thesis
      unfolding run
      by (simp add: get_weather_at_current_weather_raises [OF name place current])
  next
    case forecast
    show ?thesis
      unfolding run
      by (simp add: get_weather_at_forecast_raises [OF name place forecast])
  qed
next
  assume a: "get_location_from_google env (GOOGLE_API_KEY env) None w
          = (Inr (Some (latitude, longitude)), wl)
      \<and> latitude \<noteq> PNone \<and> longitude \<noteq> PNone
      \<and> (get_current_weather env latitude longitude (OPENWEATHER_API_KEY env) wl
            = (Inl e, wc)
         \<or> get_current_weather env latitude longitude (OPENWEATHER_API_KEY env) wl
              = (Inr current_weather, wc)
           \<and> get_five_day_forecast env latitude longitude (OPENWEATHER_API_KEY env) wc
              = (Inl e, wq))"
  then have "get_location_from_google env (GOOGLE_API_KEY env) None w
          = (Inr (Some (latitude, longitude)), wl)"
    and "latitude \<noteq> PNone" and "longitude \<noteq> PNone"
    by blast+
  then have run: "weather env (log, w)
       = weather_at env latitude longitude
           (log @ [GetLocationFromGoogle (GOOGLE_API_KEY env) None], wl)"
    by (rule weather_resolved)
  from a consider
      (current) "get_current_weather env latitude longitude (OPENWEATHER_API_KEY env) wl
            = (Inl e, wc)"
    | (forecast) "get_current_weather env latitude longitude (OPENWEATHER_API_KEY env) wl
              = (Inr current_weather, wc)"
        "get_five_day_forecast env latitude longitude (OPENWEATHER_API_KEY env) wc
              = (Inl e, wq)"
    by blast
  then show "fst (weather env (log, w)) = Inl e"
  proof cases
    case current
    then show ?thesis
      unfolding run by (simp add: weather_at_current_weather_raises [OF current])
  next
    case forecast
    then show ?thesis
      unfolding run by (simp add: weather_at_forecast_raises [OF forecast])
  qed
next
  show "dispatch fw (Inl (PyExc c m))
       = \<lparr>status = 500, body = JsonBody (PDict
            [(''error'', PStr (str_exn (as_server_error fw (PyExc c m))))])\<rparr>"
    by (simp add: dispatch_python_exception internal_server_error_response)
next
  show "internal_server_error e'
       = \<lparr>status = 500, body = JsonBody (PDict [(''error'', PStr (str_exn e'))])\<rparr>"
    by (rule internal_server_error_response)
next
  show "not_found_error e'
       = \<lparr>status = 404, body = JsonBody (PDict [(''error'', PStr (str_exn e'))])\<rparr>"
    by (rule not_found_error_response)
qed

theorem weather_fetch_exception_propagates_witness:
  "fst (get_weather
          (example_env\<lparr>get_current_weather :=
             (\<lambda>lat lon key w. (Inl (PyExc ''ConnectionError'' ''connection refused''), w))\<rparr>)
          (post_request (PDict [(''location'', PStr ''Paris'')])) ([], []))
     = Inl (PyExc ''ConnectionError'' ''connection refused'')
   \<and> fst (weather
          (example_env\<lparr>get_current_weather :=
             (\<lambda>lat lon key w. (Inl (PyExc ''ConnectionError'' ''connection refused''), w))\<rparr>)
          ([], []))
     = Inl (PyExc ''ConnectionError'' ''connection refused'')
   \<and> dispatch example_framework (Inl (PyExc ''ConnectionError'' ''connection refused''))
     = \<lparr>status = 500, body = JsonBody (PDict
          [(''error'', PStr ''500 Internal Server Error'')])\<rparr>"
proof -
  let ?e = "PyExc ''ConnectionError'' ''connection refused''"
  let ?env = "example_env\<lparr>get_current_weather := (\<lambda>lat lon key w. (Inl ?e, w))\<rparr>"
  let ?request = "post_request (PDict [(''location'', PStr ''Paris'')])"
  note facts = weather_fetch_exception_propagates
    [where request = ?request
       and data = "PDict [(''location'', PStr ''Paris'')]"
       and location = "PStr ''Paris''"
       and env = ?env
       and latitude = "PFloat ''48.8566''" and longitude = "PFloat ''2.3522''"
       and location_name = "PStr ''Paris, France''" and place_id = "PStr ''place-1''"
       and e = ?e
       and current_weather = PNone
       and w = "[]" and wl = "[]" and wn = "[]" and wp = "[]" and wc = "[]" and wq = "[]"
       and log = "[]" and fw = example_framework
       and c = "''ConnectionError''" and m = "''connection refused''"
       and e' = "HTTPExc 404 ''404 Not Found''"]
  have post: "fst (get_weather ?env ?request ([], [])) = Inl ?e"
    by (rule mp [OF facts [THEN conjunct1]]) (simp add: post_request_def example_env_def)
  have get: "fst (weather ?env ([], [])) = Inl ?e"
    by (rule mp [OF facts [THEN conjunct2, THEN conjunct1]]) (simp add: example_env_def)
  have "dispatch example_framework (Inl ?e)
     = \<lparr>status = 500, body = JsonBody (PDict
          [(''error'', PStr ''500 Internal Server Error'')])\<rparr>"
    using facts [THEN conjunct2, THEN conjunct2, THEN conjunct1]
    by (simp add: example_framework_def)
  with post get show ?thesis
    by blast
qed

section \<open>POST /get_weather: a body that is not an object\<close>

lemma get_weather_Inr_body_is_object:
  assumes "fst (get_weather env request s) = Inr r"
  shows "\<exists>kvs. get_json request = Inr (PDict kvs)"
proof (cases "get_json request")
  case (Inl e)
  with assms show ?thesis
    by (simp add: get_weather_def io_bind_lift_Inl)
next
  case (Inr data)
  show ?thesis
  proof (cases "\<exists>kvs. data = PDict kvs")
    case True
    with Inr show ?thesis by blast
  next
    case False
    then have "py_get data ''location'' = Inl (no_attribute data ''get'')"
      by (cases data) simp_all
    with Inr assms show ?thesis
      by (simp add: get_weather_def io_bind_lift_Inr io_bind_lift_Inl)
  qed
qed

text \<open>
  C9, as the code has it. When \<^verbatim>\<open>request.get_json()\<close> returns anything but a dict
  (\<^verbatim>\<open>None\<close> for a JSON null, a list, a string, a number), \<^verbatim>\<open>data.get('location')\<close> raises
  \<^verbatim>\<open>AttributeError\<close> before any call is made, and the request ends in the handler for
  status 500, not in the \<^verbatim>\<open>No location provided.\<close> payload. That payload is only
  returned when the body was decoded to a dict. When \<^verbatim>\<open>get_json\<close> itself raises, that
  exception is the outcome of the view.
\<close>

theorem get_weather_body_not_object:
  "(get_json request = Inr data \<and> (\<forall>kvs. data \<noteq> PDict kvs)
      \<longrightarrow> get_weather env request s = (Inl (no_attribute data ''get''), s)
        \<and> status (dispatch fw (fst (get_weather env request s))) = 500
        \<and> fst (get_weather env request s) \<noteq> Inr no_location_provided)
   \<and> (fst (get_weather env request s) = Inr no_location_provided
      \<longrightarrow> (\<exists>kvs. get_json request = Inr (PDict kvs)))
   \<and> (get_json request = Inl e \<longrightarrow> get_weather env request s = (Inl e, s))"
proof (intro conjI impI)
  assume a: "get_json request = Inr data \<and> (\<forall>kvs. data \<noteq> PDict kvs)"
  then have "py_get data ''location'' = Inl (no_attribute data ''get'')"
    by (cases data) simp_all
  with a show run: "get_weather env request s = (Inl (no_attribute data ''get''), s)"
    by (simp add: get_weather_def io_bind_lift_Inr io_bind_lift_Inl)
  then show "status (dispatch fw (fst (get_weather env request s))) = 500"
    by (simp add: no_attribute_def dispatch_def errorhandler_def internal_server_error_def
        with_status_def)
  from run show "fst (get_weather env request s) \<noteq> Inr no_location_provided"
    by simp
next
  assume "fst (get_weather env request s) = Inr no_location_provided"
  then show "\<exists>kvs. get_json request = Inr (PDict kvs)"
    by (rule get_weather_Inr_body_is_object)
next
  assume "get_json request = Inl e"
  then show "get_weather env request s = (Inl e, s)"
    by (simp add: get_weather_def io_bind_lift_Inl)
qed

theorem get_weather_body_not_object_witness:
  "get_weather example_env (post_request PNone) ([], [])
     = (Inl (PyExc ''AttributeError''
          (quote ''NoneType'' @ '' object has no attribute '' @ quote ''get'')), ([], []))
   \<and> status (dispatch example_framework
        (fst (get_weather example_env (post_request PNone) ([], [])))) = 500"
proof -
  note facts = get_weather_body_not_object
    [where request = "post_request PNone" and data = PNone and env = example_env
       and s = "([], [])" and fw = example_framework]
  have both: "get_weather example_env (post_request PNone) ([], [])
               = (Inl (no_attribute (PNone :: string pyval) ''get''), ([], []))
      \<and> status (dispatch example_framework
            (fst (get_weather example_env (post_request PNone) ([], [])))) = 500
      \<and> fst (get_weather example_env (post_request PNone) ([], []))
            \<noteq> Inr no_location_provided"
    by (rule mp [OF facts [THEN conjunct1]]) (simp add: post_request_def)
  have "no_attribute (PNone :: string pyval) ''get''
      = PyExc ''AttributeError''
          (quote ''NoneType'' @ '' object has no attribute '' @ quote ''get'')"
    by (simp add: no_attribute_def)
  with both [THEN conjunct1] both [THEN conjunct2, THEN conjunct1] show ?thesis
    by (simp only:)
qed

text \<open>
  The claim as it was stated names a missing and an unparsable body among those for
  which \<^verbatim>\<open>get_json\<close> yields \<^verbatim>\<open>None\<close> and the request ends with status 500. For those
  bodies \<^verbatim>\<open>get_json\<close> raises instead, and the request ends with 415 and 400.
\<close>

theorem get_weather_body_not_json_counterexample:
  "get_json (request_of_body MalformedJson :: string request) \<noteq> Inr PNone
   \<and> status (dispatch example_framework
         (fst (get_weather example_env (request_of_body MalformedJson) ([], [])))) = 400
   \<and> get_json (request_of_body NoJsonBody :: string request) \<noteq> Inr PNone
   \<and> status (dispatch example_framework
         (fst (get_weather example_env (request_of_body NoJsonBody) ([], [])))) = 415"
  by (simp add: get_weather_def io_bind_lift_Inl dispatch_def errorhandler_def
      example_framework_def)

end
